theory Spec2Isabelle
  imports Main "HOL-Library.Word"
begin

unbundle bit_operations_syntax

section \<open>Trades of the history database (services/horizon/internal/db2/history/trade.go)\<close>

text \<open>
  Go's fixed-width integers are words. \<open>int64\<close> and \<open>int32\<close> are signed, so they are
  compared with the signed orders \<open><s\<close> and \<open>\<le>s\<close>; \<open>+\<close> wraps around as in Go.
\<close>

type_synonym int64 = "64 word"
type_synonym int32 = "32 word"
type_synonym uint64 = "64 word"

subsection \<open>Errors\<close>

text \<open>
  A Go \<^verbatim>\<open>error\<close> value: an opaque error carrying its message, or \<^verbatim>\<open>errors.Wrap(err, msg)\<close>.
  A function returning \<^verbatim>\<open>error\<close> returns \<open>error option\<close> (\<open>None\<close> is \<^verbatim>\<open>nil\<close>); a function
  returning a value and an error returns \<open>error + 'a\<close>.
\<close>

datatype error = Error string | Wrap error string

subsection \<open>Rows\<close>

text \<open>
  \<^verbatim>\<open>time.Time\<close> of Go's standard library, reduced to what \<^verbatim>\<open>CheckExpTrades\<close> reads: the
  seconds since the epoch returned by \<^verbatim>\<open>Unix()\<close>, and the rest of the representation
  (sub-second part, location), which \<^verbatim>\<open>reflect.DeepEqual\<close> compares and \<^verbatim>\<open>Unix()\<close> ignores.
\<close>

record Time =
  seconds :: int
  nanoseconds :: nat
  location :: string

definition Unix :: "Time \<Rightarrow> int" where
  "Unix t = seconds t"

text \<open>\<^verbatim>\<open>null.Int\<close>: a nullable 64-bit integer column (\<^verbatim>\<open>HasPrice\<close> reads its \<^verbatim>\<open>Valid\<close> flag).\<close>

record NullInt =
  Int64 :: int64
  Valid :: bool

text \<open>
  Modelled from the spec: the struct \<^verbatim>\<open>Trade\<close> is declared outside trade.go. Its fields
  are the data model of the spec (section 3) under the names trade.go uses for them, one
  for each column of \<^verbatim>\<open>selectTradeFields\<close>.
\<close>

record Trade =
  HistoryOperationID :: int64
  Order :: int32
  LedgerCloseTime :: Time
  OfferID :: int64
  BaseOfferID :: int64
  BaseAccount :: string
  BaseAssetType :: string
  BaseAssetCode :: string
  BaseAssetIssuer :: string
  BaseAmount :: int64
  CounterOfferID :: int64
  CounterAccount :: string
  CounterAssetType :: string
  CounterAssetCode :: string
  CounterAssetIssuer :: string
  CounterAmount :: int64
  BaseIsSeller :: bool
  PriceN :: NullInt
  PriceD :: NullInt

text \<open>\<^verbatim>\<open>HasPrice\<close>, lines 22-24.\<close>

definition HasPrice :: "Trade \<Rightarrow> bool" where
  "HasPrice r = (Valid (PriceN r) \<and> Valid (PriceD r))"

text \<open>
  A row of \<^verbatim>\<open>history_trades htrd\<close> joined with the accounts and assets tables
  (\<^verbatim>\<open>joinTradeAccounts\<close>, \<^verbatim>\<open>joinTradeAssets\<close>): the columns a \<^verbatim>\<open>Trade\<close> is read from
  (\<open>BaseAccount\<close> is \<^verbatim>\<open>base_accounts.address\<close>, \<open>BaseAssetType\<close> is
  \<^verbatim>\<open>base_assets.asset_type\<close>, and so on), and the id columns the filters compare.
\<close>

record joined_row = Trade +
  htrd_base_account_id :: int64
  htrd_counter_account_id :: int64
  htrd_base_asset_id :: int64
  htrd_counter_asset_id :: int64

text \<open>
  The select lists \<^verbatim>\<open>selectTradeFields\<close> (lines 190-210) and
  \<^verbatim>\<open>selectReverseTradeFields\<close> (lines 212-232), as the projections they denote: each
  output column of the list is read from the named column of the row.
\<close>

definition selectTradeFields :: "'a Trade_scheme \<Rightarrow> Trade" where
  "selectTradeFields r =
     \<lparr> HistoryOperationID = HistoryOperationID r,
       Order = Order r,
       LedgerCloseTime = LedgerCloseTime r,
       OfferID = OfferID r,
       BaseOfferID = BaseOfferID r,
       BaseAccount = BaseAccount r,
       BaseAssetType = BaseAssetType r,
       BaseAssetCode = BaseAssetCode r,
       BaseAssetIssuer = BaseAssetIssuer r,
       BaseAmount = BaseAmount r,
       CounterOfferID = CounterOfferID r,
       CounterAccount = CounterAccount r,
       CounterAssetType = CounterAssetType r,
       CounterAssetCode = CounterAssetCode r,
       CounterAssetIssuer = CounterAssetIssuer r,
       CounterAmount = CounterAmount r,
       BaseIsSeller = BaseIsSeller r,
       PriceN = PriceN r,
       PriceD = PriceD r \<rparr>"

definition selectReverseTradeFields :: "'a Trade_scheme \<Rightarrow> Trade" where
  "selectReverseTradeFields r =
     \<lparr> HistoryOperationID = HistoryOperationID r,
       Order = Order r,
       LedgerCloseTime = LedgerCloseTime r,
       OfferID = OfferID r,
       BaseOfferID = CounterOfferID r,
       BaseAccount = CounterAccount r,
       BaseAssetType = CounterAssetType r,
       BaseAssetCode = CounterAssetCode r,
       BaseAssetIssuer = CounterAssetIssuer r,
       BaseAmount = CounterAmount r,
       CounterOfferID = BaseOfferID r,
       CounterAccount = BaseAccount r,
       CounterAssetType = BaseAssetType r,
       CounterAssetCode = BaseAssetCode r,
       CounterAssetIssuer = BaseAssetIssuer r,
       CounterAmount = BaseAmount r,
       BaseIsSeller = (\<not> BaseIsSeller r),
       PriceN = PriceD r,
       PriceD = PriceN r \<rparr>"

datatype select_fields = SelectTradeFields | SelectReverseTradeFields

definition project :: "select_fields \<Rightarrow> joined_row \<Rightarrow> Trade" where
  "project f r = (case f of SelectTradeFields \<Rightarrow> selectTradeFields r
                           | SelectReverseTradeFields \<Rightarrow> selectReverseTradeFields r)"

subsection \<open>Canonical order of an asset pair\<close>

text \<open>\<^verbatim>\<open>getCanonicalAssetOrder\<close>, lines 342-348.\<close>

definition getCanonicalAssetOrder :: "int64 \<Rightarrow> int64 \<Rightarrow> bool \<times> int64 \<times> int64" where
  "getCanonicalAssetOrder assetId1 assetId2 =
     (if assetId1 <s assetId2 then (True, assetId1, assetId2)
      else (False, assetId2, assetId1))"

subsection \<open>The query builder\<close>

text \<open>
  The conditions trade.go passes to \<^verbatim>\<open>Where\<close>, with their arguments bound: comparisons of
  an integer column of \<^verbatim>\<open>htrd\<close> with a Go integer, under \<^verbatim>\<open>AND\<close> and \<^verbatim>\<open>OR\<close>. The
  relational engine compares the numbers the signed integers stand for.
\<close>

datatype column =
    history_operation_id_col | order_col
  | base_offer_id_col | counter_offer_id_col
  | base_account_id_col | counter_account_id_col
  | base_asset_id_col | counter_asset_id_col

datatype comparison = GE | LE | GT | LT | EQ

datatype sqlexpr =
    Cmp column comparison int64
  | SqlAnd sqlexpr sqlexpr
  | SqlOr sqlexpr sqlexpr

definition column_value :: "column \<Rightarrow> joined_row \<Rightarrow> int" where
  "column_value c r =
     (case c of
        history_operation_id_col \<Rightarrow> sint (HistoryOperationID r)
      | order_col \<Rightarrow> sint (Order r)
      | base_offer_id_col \<Rightarrow> sint (BaseOfferID r)
      | counter_offer_id_col \<Rightarrow> sint (CounterOfferID r)
      | base_account_id_col \<Rightarrow> sint (htrd_base_account_id r)
      | counter_account_id_col \<Rightarrow> sint (htrd_counter_account_id r)
      | base_asset_id_col \<Rightarrow> sint (htrd_base_asset_id r)
      | counter_asset_id_col \<Rightarrow> sint (htrd_counter_asset_id r))"

definition sql_compare :: "comparison \<Rightarrow> int \<Rightarrow> int \<Rightarrow> bool" where
  "sql_compare c x y =
     (case c of GE \<Rightarrow> x \<ge> y | LE \<Rightarrow> x \<le> y | GT \<Rightarrow> x > y | LT \<Rightarrow> x < y | EQ \<Rightarrow> x = y)"

fun eval_where :: "sqlexpr \<Rightarrow> joined_row \<Rightarrow> bool" where
  "eval_where (Cmp c cmp v) r = sql_compare cmp (column_value c r) (sint v)"
| "eval_where (SqlAnd a b) r = (eval_where a r \<and> eval_where b r)"
| "eval_where (SqlOr a b) r = (eval_where a r \<or> eval_where b r)"

text \<open>
  The \<^verbatim>\<open>squirrel\<close> select builder, as the parts trade.go sets: the select list, the table,
  the joins, the conditions (all of them must hold), the ordering clauses and the limit.
\<close>

record SelectBuilder =
  Columns :: select_fields
  From :: string
  Joins :: "string list"
  WhereParts :: "sqlexpr list"
  OrderBys :: "string list"
  Limit :: "uint64 option"

definition sq_Select :: "select_fields \<Rightarrow> SelectBuilder" where
  "sq_Select f = \<lparr> Columns = f, From = [], Joins = [], WhereParts = [], OrderBys = [], Limit = None \<rparr>"

definition sq_From :: "SelectBuilder \<Rightarrow> string \<Rightarrow> SelectBuilder" where
  "sq_From b t = b\<lparr> From := t \<rparr>"

definition sq_Join :: "SelectBuilder \<Rightarrow> string \<Rightarrow> SelectBuilder" where
  "sq_Join b j = b\<lparr> Joins := Joins b @ [j] \<rparr>"

definition sq_Where :: "SelectBuilder \<Rightarrow> sqlexpr \<Rightarrow> SelectBuilder" where
  "sq_Where b e = b\<lparr> WhereParts := WhereParts b @ [e] \<rparr>"

definition sq_OrderBy :: "SelectBuilder \<Rightarrow> string \<Rightarrow> SelectBuilder" where
  "sq_OrderBy b s = b\<lparr> OrderBys := OrderBys b @ [s] \<rparr>"

definition sq_Limit :: "SelectBuilder \<Rightarrow> uint64 \<Rightarrow> SelectBuilder" where
  "sq_Limit b n = b\<lparr> Limit := Some n \<rparr>"

text \<open>A row passes the filter of a built query when every condition holds.\<close>

definition row_selected :: "SelectBuilder \<Rightarrow> joined_row \<Rightarrow> bool" where
  "row_selected b r = list_all (\<lambda>e. eval_where e r) (WhereParts b)"

text \<open>\<^verbatim>\<open>joinTradeAccounts\<close> (lines 178-182) and \<^verbatim>\<open>joinTradeAssets\<close> (lines 184-188).\<close>

definition joinTradeAccounts :: "SelectBuilder \<Rightarrow> string \<Rightarrow> SelectBuilder" where
  "joinTradeAccounts selectBuilder historyAccountsTable =
     sq_Join
       (sq_Join selectBuilder
          (historyAccountsTable @ '' base_accounts ON base_account_id = base_accounts.id''))
       (historyAccountsTable @ '' counter_accounts ON counter_account_id = counter_accounts.id'')"

definition joinTradeAssets :: "SelectBuilder \<Rightarrow> string \<Rightarrow> SelectBuilder" where
  "joinTradeAssets selectBuilder historyAssetsTable =
     sq_Join
       (sq_Join selectBuilder
          (historyAssetsTable @ '' base_assets ON base_asset_id = base_assets.id''))
       (historyAssetsTable @ '' counter_assets ON counter_asset_id = counter_assets.id'')"

subsection \<open>The session and its collaborators\<close>

record Account =
  ID :: int64
  Address :: string

type_synonym AccountId = string

datatype Asset =
    AssetTypeNative
  | AssetTypeCreditAlphanum4 string AccountId
  | AssetTypeCreditAlphanum12 string AccountId

text \<open>The columns of \<^verbatim>\<open>tradesInsert\<close> (lines 234-250) with the values bound to them.\<close>

record history_trades_values =
  history_operation_id :: int64
  order :: int32
  ledger_closed_at :: Time
  offer_id :: int64
  base_offer_id :: int64
  base_account_id :: int64
  base_asset_id :: int64
  base_amount :: int64
  counter_offer_id :: int64
  counter_account_id :: int64
  counter_asset_id :: int64
  counter_amount :: int64
  base_is_seller :: bool
  price_n :: int32
  price_d :: int32

text \<open>
  \<^verbatim>\<open>Q\<close>, the database session. The account and asset resolvers and the relational engine
  are collaborators outside trade.go, so the session carries their answers:
  what \<^verbatim>\<open>AccountByAddress\<close>, \<^verbatim>\<open>GetCreateAccountID\<close> and \<^verbatim>\<open>GetCreateAssetID\<close> return, whether
  the engine accepts an insert (\<open>exec_answer\<close>), and what it returns for a built query
  (\<open>select_answer\<close>). The effects of trade.go on the store are recorded: the rows inserted
  and the queries executed, in order.
\<close>

record Q =
  AccountByAddress :: "string \<Rightarrow> error + Account"
  GetCreateAccountID :: "AccountId \<Rightarrow> error + int64"
  GetCreateAssetID :: "Asset \<Rightarrow> error + int64"
  exec_answer :: "history_trades_values \<Rightarrow> error option"
  select_answer :: "SelectBuilder \<Rightarrow> error + Trade list"
  inserted :: "history_trades_values list"
  executed :: "SelectBuilder list"

definition Q_Exec :: "Q \<Rightarrow> history_trades_values \<Rightarrow> error option \<times> Q" where
  "Q_Exec q vals =
     (case exec_answer q vals of
        Some err \<Rightarrow> (Some err, q)
      | None \<Rightarrow> (None, q\<lparr> inserted := inserted q @ [vals] \<rparr>))"

definition Q_Select :: "Q \<Rightarrow> SelectBuilder \<Rightarrow> (error + Trade list) \<times> Q" where
  "Q_Select q b = (select_answer q b, q\<lparr> executed := executed q @ [b] \<rparr>)"

record TradesQ =
  Err :: "error option"
  parent :: Q
  sql :: SelectBuilder

text \<open>\<^verbatim>\<open>Trades\<close> (lines 28-39), \<^verbatim>\<open>expTrades\<close> (lines 41-52), \<^verbatim>\<open>ReverseTrades\<close> (lines 56-67).\<close>

definition Trades :: "Q \<Rightarrow> TradesQ" where
  "Trades q =
     \<lparr> Err = None, parent = q,
       sql = joinTradeAssets
               (joinTradeAccounts
                  (sq_From (sq_Select SelectTradeFields) ''history_trades htrd'')
                  ''history_accounts'')
               ''history_assets'' \<rparr>"

definition expTrades :: "Q \<Rightarrow> TradesQ" where
  "expTrades q =
     \<lparr> Err = None, parent = q,
       sql = joinTradeAssets
               (joinTradeAccounts
                  (sq_From (sq_Select SelectTradeFields) ''exp_history_trades htrd'')
                  ''exp_history_accounts'')
               ''exp_history_assets'' \<rparr>"

definition ReverseTrades :: "Q \<Rightarrow> TradesQ" where
  "ReverseTrades q =
     \<lparr> Err = None, parent = q,
       sql = joinTradeAssets
               (joinTradeAccounts
                  (sq_From (sq_Select SelectReverseTradeFields) ''history_trades htrd'')
                  ''history_accounts'')
               ''history_assets'' \<rparr>"

text \<open>\<^verbatim>\<open>ForOffer\<close> (lines 83-86) and \<^verbatim>\<open>forAssetPair\<close> (lines 89-92).\<close>

definition ForOffer :: "TradesQ \<Rightarrow> int64 \<Rightarrow> TradesQ" where
  "ForOffer q offerId =
     q\<lparr> sql := sq_Where (sql q)
                   (SqlOr (Cmp base_offer_id_col EQ offerId)
                          (Cmp counter_offer_id_col EQ offerId)) \<rparr>"

definition forAssetPair :: "TradesQ \<Rightarrow> int64 \<Rightarrow> int64 \<Rightarrow> TradesQ" where
  "forAssetPair q baseAssetId counterAssetId =
     q\<lparr> sql := sq_Where (sql q)
                   (SqlAnd (Cmp base_asset_id_col EQ baseAssetId)
                           (Cmp counter_asset_id_col EQ counterAssetId)) \<rparr>"

text \<open>\<^verbatim>\<open>TradesForAssetPair\<close>, lines 71-80.\<close>

definition TradesForAssetPair :: "Q \<Rightarrow> int64 \<Rightarrow> int64 \<Rightarrow> TradesQ" where
  "TradesForAssetPair q baseAssetId0 counterAssetId0 =
     (case getCanonicalAssetOrder baseAssetId0 counterAssetId0 of
        (orderPreserved, baseAssetId, counterAssetId) \<Rightarrow>
          forAssetPair (if orderPreserved then Trades q else ReverseTrades q)
            baseAssetId counterAssetId)"

text \<open>
  \<^verbatim>\<open>ForLedger\<close>, lines 95-108. The package \<^verbatim>\<open>toid\<close> is outside trade.go: its conversion
  \<^verbatim>\<open>ToInt64\<close> of an id to the composite ordinal is a parameter.
\<close>

record ID =
  LedgerSequence :: int32
  TransactionOrder :: int32
  OperationOrder :: int32

definition ForLedger :: "(ID \<Rightarrow> int64) \<Rightarrow> TradesQ \<Rightarrow> int32 \<Rightarrow> string \<Rightarrow> TradesQ" where
  "ForLedger ToInt64 q sequence ord =
     (let from = ToInt64 \<lparr> LedgerSequence = sequence, TransactionOrder = 0, OperationOrder = 0 \<rparr>;
          to = ToInt64 \<lparr> LedgerSequence = sequence + 1, TransactionOrder = 0, OperationOrder = 0 \<rparr>
      in q\<lparr> sql :=
             sq_OrderBy
               (sq_Where (sql q)
                  (SqlAnd (Cmp history_operation_id_col GE from)
                          (Cmp history_operation_id_col LE to)))
               (''htrd.history_operation_id '' @ ord @ '', htrd.order '' @ ord) \<rparr>)"

text \<open>\<^verbatim>\<open>ForAccount\<close>, lines 111-120.\<close>

definition ForAccount :: "TradesQ \<Rightarrow> string \<Rightarrow> TradesQ" where
  "ForAccount q aid =
     (case AccountByAddress (parent q) aid of
        Inl err \<Rightarrow> q\<lparr> Err := Some err \<rparr>
      | Inr account \<Rightarrow>
          q\<lparr> Err := None,
             sql := sq_Where (sql q)
                      (SqlOr (Cmp base_account_id_col EQ (ID account))
                             (Cmp counter_account_id_col EQ (ID account))) \<rparr>)"

text \<open>
  \<^verbatim>\<open>db2.PageQuery\<close>. Its method \<^verbatim>\<open>CursorInt64Pair\<close> is outside trade.go and is a
  parameter of \<open>Page\<close>: it returns the two integers of the cursor or an error.
\<close>

record PageQuery =
  Cursor :: string
  Order_pq :: string
  Limit_pq :: uint64

text \<open>
  Modelled from the spec: the constant \<^verbatim>\<open>db2.DefaultPairSep\<close> is declared outside
  trade.go; the cursor wire format of the spec is \<^verbatim>\<open><int64>-<int64>\<close>.
\<close>

definition DefaultPairSep :: string where
  "DefaultPairSep = ''-''"

definition MaxInt32 :: int64 where
  "MaxInt32 = 2147483647"

text \<open>The two conditions of \<^verbatim>\<open>Page\<close>, lines 146-151 and 155-160.\<close>

definition page_asc_where :: "int64 \<Rightarrow> int64 \<Rightarrow> sqlexpr" where
  "page_asc_where op idx =
     SqlAnd (Cmp history_operation_id_col GE op)
            (SqlOr (Cmp history_operation_id_col GT op)
                   (SqlAnd (Cmp history_operation_id_col EQ op) (Cmp order_col GT idx)))"

definition page_desc_where :: "int64 \<Rightarrow> int64 \<Rightarrow> sqlexpr" where
  "page_desc_where op idx =
     SqlAnd (Cmp history_operation_id_col LE op)
            (SqlOr (Cmp history_operation_id_col LT op)
                   (SqlAnd (Cmp history_operation_id_col EQ op) (Cmp order_col LT idx)))"

text \<open>\<^verbatim>\<open>Page\<close>, lines 123-166.\<close>

definition Page ::
  "(PageQuery \<Rightarrow> string \<Rightarrow> error + int64 \<times> int64) \<Rightarrow> TradesQ \<Rightarrow> PageQuery \<Rightarrow> TradesQ" where
  "Page CursorInt64Pair q page =
     (if Err q \<noteq> None then q
      else case CursorInt64Pair page DefaultPairSep of
        Inl err \<Rightarrow> q\<lparr> Err := Some err \<rparr>
      | Inr (op, idx0) \<Rightarrow>
          (let idx = (if MaxInt32 <s idx0 then MaxInt32 else idx0);
               q1 = (if Order_pq page = ''asc'' then
                       q\<lparr> sql := sq_OrderBy (sq_Where (sql q) (page_asc_where op idx))
                                    ''htrd.history_operation_id asc, htrd.order asc'' \<rparr>
                     else if Order_pq page = ''desc'' then
                       q\<lparr> sql := sq_OrderBy (sq_Where (sql q) (page_desc_where op idx))
                                    ''htrd.history_operation_id desc, htrd.order desc'' \<rparr>
                     else q)
           in q1\<lparr> sql := sq_Limit (sql q1) (Limit_pq page) \<rparr>))"

text \<open>
  \<^verbatim>\<open>Select\<close>, lines 169-176: the error returned or the rows loaded into \<^verbatim>\<open>dest\<close>, and the
  builder after the call.
\<close>

definition Select :: "TradesQ \<Rightarrow> (error + Trade list) \<times> TradesQ" where
  "Select q =
     (case Err q of
        Some err \<Rightarrow> (Inl err, q)
      | None \<Rightarrow>
          (case Q_Select (parent q) (sql q) of
             (Inl err, p) \<Rightarrow> (Inl err, q\<lparr> Err := Some err, parent := p \<rparr>)
           | (Inr rows, p) \<Rightarrow> (Inr rows, q\<lparr> Err := None, parent := p \<rparr>)))"

subsection \<open>Recording a trade\<close>

record Price =
  N :: int32
  D :: int32

text \<open>
  Modelled from the spec: the method \<^verbatim>\<open>Invert\<close> of \<^verbatim>\<open>xdr.Price\<close> is declared outside
  trade.go; the spec has it swap numerator and denominator.
\<close>

definition Invert :: "Price \<Rightarrow> Price" where
  "Invert p = \<lparr> N = D p, D = N p \<rparr>"

text \<open>\<^verbatim>\<open>xdr.OfferEntry\<close> and \<^verbatim>\<open>xdr.ClaimOfferAtom\<close>, the fields of the XDR structures.\<close>

record OfferEntry =
  SellerId :: AccountId
  OfferId :: int64
  Selling :: Asset
  Buying :: Asset
  Amount :: int64
  OfferPrice :: Price
  Flags :: "32 word"

record ClaimOfferAtom =
  SellerId :: AccountId
  OfferId :: int64
  AssetSold :: Asset
  AmountSold :: int64
  AssetBought :: Asset
  AmountBought :: int64

text \<open>The two namespaces of offer ids that \<^verbatim>\<open>EncodeOfferId\<close> tags.\<close>

datatype OfferIDType = CoreOfferIDType | TOIDType

type_synonym Millis = int64

text \<open>
  \<^verbatim>\<open>InsertTrade\<close>, lines 253-340. \<^verbatim>\<open>EncodeOfferId\<close> and the conversion \<^verbatim>\<open>ToTime\<close> of
  \<^verbatim>\<open>supportTime.Millis\<close> are declared outside trade.go and are parameters. The result is
  the error returned and the session after the call.
\<close>

definition InsertTrade ::
  "(uint64 \<Rightarrow> OfferIDType \<Rightarrow> int64) \<Rightarrow> (Millis \<Rightarrow> Time) \<Rightarrow> Q \<Rightarrow> int64 \<Rightarrow> int32 \<Rightarrow> AccountId \<Rightarrow> bool
     \<Rightarrow> OfferEntry \<Rightarrow> ClaimOfferAtom \<Rightarrow> Price \<Rightarrow> Millis \<Rightarrow> error option \<times> Q" where
  "InsertTrade EncodeOfferId ToTime q opid ord buyer buyOfferExists buyOffer trade sellPrice
       ledgerClosedAt =
     (case GetCreateAccountID q (ClaimOfferAtom.SellerId trade) of
        Inl err \<Rightarrow> (Some (Wrap err ''failed to load seller account id''), q)
      | Inr sellerAccountId \<Rightarrow>
     (case GetCreateAccountID q buyer of
        Inl err \<Rightarrow> (Some (Wrap err ''failed to load buyer account id''), q)
      | Inr buyerAccountId \<Rightarrow>
     (case GetCreateAssetID q (AssetSold trade) of
        Inl err \<Rightarrow> (Some (Wrap err ''failed to get sold asset id''), q)
      | Inr soldAssetId \<Rightarrow>
     (case GetCreateAssetID q (AssetBought trade) of
        Inl err \<Rightarrow> (Some (Wrap err ''failed to get bought asset id''), q)
      | Inr boughtAssetId \<Rightarrow>
     (let sellOfferId = EncodeOfferId (ClaimOfferAtom.OfferId trade) CoreOfferIDType;
          buyOfferId =
            (if buyOfferExists
             then EncodeOfferId (OfferEntry.OfferId buyOffer) CoreOfferIDType
             else EncodeOfferId opid TOIDType)
      in case getCanonicalAssetOrder soldAssetId boughtAssetId of
        (orderPreserved, baseAssetId, counterAssetId) \<Rightarrow>
     (let vals =
            (if orderPreserved then
               \<lparr> history_operation_id = opid,
                 order = ord,
                 ledger_closed_at = ToTime ledgerClosedAt,
                 offer_id = ClaimOfferAtom.OfferId trade,
                 base_offer_id = sellOfferId,
                 base_account_id = sellerAccountId,
                 base_asset_id = baseAssetId,
                 base_amount = AmountSold trade,
                 counter_offer_id = buyOfferId,
                 counter_account_id = buyerAccountId,
                 counter_asset_id = counterAssetId,
                 counter_amount = AmountBought trade,
                 base_is_seller = orderPreserved,
                 price_n = N sellPrice,
                 price_d = D sellPrice \<rparr>
             else
               \<lparr> history_operation_id = opid,
                 order = ord,
                 ledger_closed_at = ToTime ledgerClosedAt,
                 offer_id = ClaimOfferAtom.OfferId trade,
                 base_offer_id = buyOfferId,
                 base_account_id = buyerAccountId,
                 base_asset_id = baseAssetId,
                 base_amount = AmountBought trade,
                 counter_offer_id = sellOfferId,
                 counter_account_id = sellerAccountId,
                 counter_asset_id = counterAssetId,
                 counter_amount = AmountSold trade,
                 base_is_seller = orderPreserved,
                 price_n = N (Invert sellPrice),
                 price_d = D (Invert sellPrice) \<rparr>)
      in case Q_Exec q vals of
           (Some err, q') \<Rightarrow> (Some (Wrap err ''failed to exec sql''), q')
         | (None, q') \<Rightarrow> (None, q')))))))"

subsection \<open>Checking the experimental ingestion against the legacy one\<close>

text \<open>
  The body of the branch at lines 389-399 of \<^verbatim>\<open>CheckExpTrades\<close>: base and counter fields
  of \<^verbatim>\<open>expTrade\<close> are exchanged and its \<^verbatim>\<open>BaseIsSeller\<close> is set to the one of \<^verbatim>\<open>trade\<close>.
\<close>

definition swapBaseCounter :: "Trade \<Rightarrow> Trade \<Rightarrow> Trade" where
  "swapBaseCounter expTrade trade =
     expTrade
       \<lparr> BaseOfferID := CounterOfferID expTrade, CounterOfferID := BaseOfferID expTrade,
         BaseAccount := CounterAccount expTrade, CounterAccount := BaseAccount expTrade,
         BaseAssetType := CounterAssetType expTrade, CounterAssetType := BaseAssetType expTrade,
         BaseAssetCode := CounterAssetCode expTrade, CounterAssetCode := BaseAssetCode expTrade,
         BaseAssetIssuer := CounterAssetIssuer expTrade,
         CounterAssetIssuer := BaseAssetIssuer expTrade,
         BaseAmount := CounterAmount expTrade, CounterAmount := BaseAmount expTrade,
         PriceN := PriceD expTrade, PriceD := PriceN expTrade,
         BaseIsSeller := BaseIsSeller trade \<rparr>"

text \<open>
  One iteration of the loop at lines 377-404: \<open>False\<close> when the iteration returns
  \<^verbatim>\<open>(false, nil)\<close>, \<open>True\<close> when the loop goes on. \<^verbatim>\<open>reflect.DeepEqual\<close> on two \<^verbatim>\<open>Trade\<close>
  values is equality of all fields.
\<close>

definition tradeMatches :: "Trade \<Rightarrow> Trade \<Rightarrow> bool" where
  "tradeMatches trade expTrade0 =
     (let expClosedAt = LedgerCloseTime expTrade0;
          expTrade1 = expTrade0\<lparr> LedgerCloseTime := LedgerCloseTime trade \<rparr>
      in if Unix expClosedAt \<noteq> Unix (LedgerCloseTime trade) then False
         else
           (let expTrade =
                  (if BaseIsSeller expTrade1 \<noteq> BaseIsSeller trade
                   then swapBaseCounter expTrade1 trade else expTrade1)
            in if expTrade \<noteq> trade then False else True))"

text \<open>
  The loop over \<^verbatim>\<open>trades\<close>, reading \<^verbatim>\<open>expTrades[i]\<close> beside \<^verbatim>\<open>trades[i]\<close>. \<open>None\<close> is the
  run-time panic of an index out of range.
\<close>

fun compareTrades :: "Trade list \<Rightarrow> Trade list \<Rightarrow> bool option" where
  "compareTrades [] expTrades' = Some True"
| "compareTrades (trade # trades) [] = None"
| "compareTrades (trade # trades) (expTrade # expTrades') =
     (if tradeMatches trade expTrade then compareTrades trades expTrades' else Some False)"

text \<open>
  \<^verbatim>\<open>CheckExpTrades\<close>, lines 352-407. The result is \<open>Some\<close> of the pair returned, or \<open>None\<close>
  for a panic, and the session after the call.
\<close>

definition CheckExpTrades :: "(ID \<Rightarrow> int64) \<Rightarrow> Q \<Rightarrow> int32 \<Rightarrow> (bool \<times> error option) option \<times> Q" where
  "CheckExpTrades ToInt64 q seq =
     (case Select (ForLedger ToInt64 (Trades q) seq ''asc'') of
        (Inl err, tq) \<Rightarrow> (Some (False, Some err), parent tq)
      | (Inr trades, tq) \<Rightarrow>
     (case Select (ForLedger ToInt64 (expTrades (parent tq)) seq ''asc'') of
        (Inl err, tq') \<Rightarrow> (Some (False, Some err), parent tq')
      | (Inr expTrades', tq') \<Rightarrow>
          (if length trades = 0 \<or> length expTrades' = 0 then Some (True, None)
           else if length trades \<noteq> length expTrades' then Some (False, None)
           else map_option (\<lambda>b. (b, None)) (compareTrades trades expTrades'),
           parent tq')))"

section \<open>Notions of the specification\<close>

text \<open>
  The two trade sequences \<^verbatim>\<open>CheckExpTrades\<close> fetches for a ledger: the answers of the store
  to the query over \<^verbatim>\<open>history_trades\<close> and to the query over \<^verbatim>\<open>exp_history_trades\<close>.
\<close>

definition fetched_trades :: "(ID \<Rightarrow> int64) \<Rightarrow> Q \<Rightarrow> int32 \<Rightarrow> error + Trade list" where
  "fetched_trades ToInt64 q seq =
     select_answer q (sql (ForLedger ToInt64 (Trades q) seq ''asc''))"

definition fetched_expTrades :: "(ID \<Rightarrow> int64) \<Rightarrow> Q \<Rightarrow> int32 \<Rightarrow> error + Trade list" where
  "fetched_expTrades ToInt64 q seq =
     select_answer q (sql (ForLedger ToInt64 (expTrades q) seq ''asc''))"

text \<open>
  Two rows are field-for-field equal, the ledger close time apart; and two rows differ
  only by the opposite canonical orientation: \<^verbatim>\<open>base_is_seller\<close> differs, the base and
  counter fields are mirrored, numerator and denominator of the price are exchanged, and
  the fields that belong to neither side are equal.
\<close>

definition same_trade :: "Trade \<Rightarrow> Trade \<Rightarrow> bool" where
  "same_trade trade expTrade \<longleftrightarrow>
     HistoryOperationID expTrade = HistoryOperationID trade \<and>
     Order expTrade = Order trade \<and>
     OfferID expTrade = OfferID trade \<and>
     BaseOfferID expTrade = BaseOfferID trade \<and>
     BaseAccount expTrade = BaseAccount trade \<and>
     BaseAssetType expTrade = BaseAssetType trade \<and>
     BaseAssetCode expTrade = BaseAssetCode trade \<and>
     BaseAssetIssuer expTrade = BaseAssetIssuer trade \<and>
     BaseAmount expTrade = BaseAmount trade \<and>
     CounterOfferID expTrade = CounterOfferID trade \<and>
     CounterAccount expTrade = CounterAccount trade \<and>
     CounterAssetType expTrade = CounterAssetType trade \<and>
     CounterAssetCode expTrade = CounterAssetCode trade \<and>
     CounterAssetIssuer expTrade = CounterAssetIssuer trade \<and>
     CounterAmount expTrade = CounterAmount trade \<and>
     BaseIsSeller expTrade = BaseIsSeller trade \<and>
     PriceN expTrade = PriceN trade \<and>
     PriceD expTrade = PriceD trade"

definition mirrored_trade :: "Trade \<Rightarrow> Trade \<Rightarrow> bool" where
  "mirrored_trade trade expTrade \<longleftrightarrow>
     HistoryOperationID expTrade = HistoryOperationID trade \<and>
     Order expTrade = Order trade \<and>
     OfferID expTrade = OfferID trade \<and>
     BaseOfferID expTrade = CounterOfferID trade \<and>
     BaseAccount expTrade = CounterAccount trade \<and>
     BaseAssetType expTrade = CounterAssetType trade \<and>
     BaseAssetCode expTrade = CounterAssetCode trade \<and>
     BaseAssetIssuer expTrade = CounterAssetIssuer trade \<and>
     BaseAmount expTrade = CounterAmount trade \<and>
     CounterOfferID expTrade = BaseOfferID trade \<and>
     CounterAccount expTrade = BaseAccount trade \<and>
     CounterAssetType expTrade = BaseAssetType trade \<and>
     CounterAssetCode expTrade = BaseAssetCode trade \<and>
     CounterAssetIssuer expTrade = BaseAssetIssuer trade \<and>
     CounterAmount expTrade = BaseAmount trade \<and>
     BaseIsSeller expTrade \<noteq> BaseIsSeller trade \<and>
     PriceN expTrade = PriceD trade \<and>
     PriceD expTrade = PriceN trade"

definition rows_agree :: "Trade \<Rightarrow> Trade \<Rightarrow> bool" where
  "rows_agree trade expTrade \<longleftrightarrow>
     Unix (LedgerCloseTime expTrade) = Unix (LedgerCloseTime trade) \<and>
     (same_trade trade expTrade \<or> mirrored_trade trade expTrade)"

text \<open>The strict lexicographic order on pairs, and the pair a row is paged by.\<close>

definition lex_less :: "int \<times> int \<Rightarrow> int \<times> int \<Rightarrow> bool" where
  "lex_less a b \<longleftrightarrow> fst a < fst b \<or> (fst a = fst b \<and> snd a < snd b)"

definition row_key :: "joined_row \<Rightarrow> int \<times> int" where
  "row_key r = (sint (HistoryOperationID r), sint (Order r))"

section \<open>Collaborators declared outside trade.go\<close>

text \<open>
  Modelled from the spec: the package \<^verbatim>\<open>toid\<close> is outside trade.go. The spec has the
  operation id as a composite ordinal that encodes ledger sequence and position and grows
  with them; this instance puts the ledger sequence above the transaction order and the
  operation order.
\<close>

definition toid_ToInt64 :: "ID \<Rightarrow> int64" where
  "toid_ToInt64 i =
     push_bit 32 (ucast (LedgerSequence i)) OR push_bit 12 (ucast (TransactionOrder i))
       OR ucast (OperationOrder i)"

text \<open>
  Modelled from the spec: \<^verbatim>\<open>EncodeOfferId\<close> is declared outside trade.go. The spec asks for
  two disjoint encodings of the raw id into the 64-bit column, for instance by a reserved
  tag bit; this instance tags bit 62.
\<close>

definition EncodeOfferId_tagged :: "uint64 \<Rightarrow> OfferIDType \<Rightarrow> int64" where
  "EncodeOfferId_tagged rawId typ =
     (case typ of CoreOfferIDType \<Rightarrow> take_bit 62 rawId
                | TOIDType \<Rightarrow> take_bit 62 rawId OR push_bit 62 1)"

text \<open>
  Modelled from the spec: the conversion \<^verbatim>\<open>ToTime\<close> of \<^verbatim>\<open>supportTime.Millis\<close> is declared
  outside trade.go. The spec has \<^verbatim>\<open>closed_at\<close> as the timestamp of the ledger close; this
  instance reads its argument as milliseconds since the epoch.
\<close>

definition Millis_ToTime :: "Millis \<Rightarrow> Time" where
  "Millis_ToTime m =
     \<lparr> seconds = sint m div 1000, nanoseconds = nat (sint m mod 1000) * 1000000,
       location = ''UTC'' \<rparr>"

text \<open>
  Modelled from the spec: the method \<^verbatim>\<open>CursorInt64Pair\<close> of \<^verbatim>\<open>db2.PageQuery\<close> and its error
  are declared outside trade.go. The cursor wire format of the spec is
  \<^verbatim>\<open><int64>-<int64>\<close>, and a malformed or out-of-range token is an invalid cursor. This
  instance splits the token at the first separator and reads two decimal numbers that fit
  64 signed bits.
\<close>

definition ErrInvalidCursor :: error where
  "ErrInvalidCursor = Error ''invalid cursor''"

fun split_once :: "string \<Rightarrow> string \<Rightarrow> (string \<times> string) option" where
  "split_once sep [] = None"
| "split_once sep (c # cs) =
     (if sep \<noteq> [] \<and> take (length sep) (c # cs) = sep then Some ([], drop (length sep) (c # cs))
      else map_option (\<lambda>(l, r). (c # l, r)) (split_once sep cs))"

definition digit_value :: "char \<Rightarrow> nat option" where
  "digit_value c =
     (if 48 \<le> (of_char c :: nat) \<and> (of_char c :: nat) \<le> 57 then Some (of_char c - 48) else None)"

fun decimal_value :: "nat \<Rightarrow> string \<Rightarrow> nat option" where
  "decimal_value acc [] = Some acc"
| "decimal_value acc (c # cs) =
     (case digit_value c of None \<Rightarrow> None | Some d \<Rightarrow> decimal_value (10 * acc + d) cs)"

definition ParseInt64 :: "string \<Rightarrow> int64 option" where
  "ParseInt64 s =
     (if s = [] then None
      else case decimal_value 0 s of
             None \<Rightarrow> None
           | Some n \<Rightarrow> if n < 2 ^ 63 then Some (of_nat n) else None)"

definition decimal_CursorInt64Pair :: "PageQuery \<Rightarrow> string \<Rightarrow> error + int64 \<times> int64" where
  "decimal_CursorInt64Pair page sep =
     (case split_once sep (Cursor page) of
        None \<Rightarrow> Inl ErrInvalidCursor
      | Some (l, r) \<Rightarrow>
          (case (ParseInt64 l, ParseInt64 r) of
             (Some a, Some b) \<Rightarrow> Inr (a, b)
           | _ \<Rightarrow> Inl ErrInvalidCursor))"

section \<open>Worked inputs\<close>

text \<open>
  A session that knows two accounts, resolves assets by the given table, accepts every
  insert, and answers the query over \<^verbatim>\<open>history_trades\<close> with the first list of trades
  and the query over \<^verbatim>\<open>exp_history_trades\<close> with the second.
\<close>

definition session :: "(Asset \<Rightarrow> error + int64) \<Rightarrow> Trade list \<Rightarrow> Trade list \<Rightarrow> Q" where
  "session assetIds legacy experimental =
     \<lparr> AccountByAddress =
         (\<lambda>aid. if aid = ''GSELLER'' then Inr \<lparr> ID = 1, Address = aid \<rparr>
                else if aid = ''GBUYER'' then Inr \<lparr> ID = 2, Address = aid \<rparr>
                else Inl (Error ''sql: no rows in result set'')),
       GetCreateAccountID =
         (\<lambda>aid. if aid = ''GSELLER'' then Inr 1 else if aid = ''GBUYER'' then Inr 2 else Inr 5),
       GetCreateAssetID = assetIds,
       exec_answer = (\<lambda>vals. None),
       select_answer =
         (\<lambda>b. if From b = ''history_trades htrd'' then Inr legacy else Inr experimental),
       inserted = [],
       executed = [] \<rparr>"

definition assetX :: Asset where
  "assetX = AssetTypeCreditAlphanum4 ''X'' ''GISSUER''"

definition assetY :: Asset where
  "assetY = AssetTypeCreditAlphanum4 ''Y'' ''GISSUER''"

text \<open>Scenario A of the spec: asset X has id 3 and asset Y has id 7. Scenario B: 9 and 4.\<close>

definition assetIdsA :: "Asset \<Rightarrow> error + int64" where
  "assetIdsA a = (if a = assetX then Inr 3 else if a = assetY then Inr 7 else Inr 1)"

definition assetIdsB :: "Asset \<Rightarrow> error + int64" where
  "assetIdsB a = (if a = assetX then Inr 9 else if a = assetY then Inr 4 else Inr 1)"

text \<open>The trade of both scenarios: 50 units of X sold for 20 units of Y.\<close>

definition claimXY :: ClaimOfferAtom where
  "claimXY = \<lparr> SellerId = ''GSELLER'', OfferId = 11, AssetSold = assetX, AmountSold = 50,
               AssetBought = assetY, AmountBought = 20 \<rparr>"

definition buyOfferXY :: OfferEntry where
  "buyOfferXY = \<lparr> OfferEntry.SellerId = ''GBUYER'', OfferEntry.OfferId = 12, Selling = assetY,
                  Buying = assetX, Amount = 20, OfferPrice = \<lparr> N = 5, D = 2 \<rparr>, Flags = 0 \<rparr>"

definition rowA :: history_trades_values where
  "rowA = \<lparr> history_operation_id = 100, order = 0, ledger_closed_at = Millis_ToTime 1000,
            offer_id = 11, base_offer_id = EncodeOfferId_tagged 11 CoreOfferIDType,
            base_account_id = 1, base_asset_id = 3, base_amount = 50,
            counter_offer_id = EncodeOfferId_tagged 12 CoreOfferIDType,
            counter_account_id = 2, counter_asset_id = 7, counter_amount = 20,
            base_is_seller = True, price_n = 2, price_d = 5 \<rparr>"

definition rowB :: history_trades_values where
  "rowB = \<lparr> history_operation_id = 100, order = 0, ledger_closed_at = Millis_ToTime 1000,
            offer_id = 11, base_offer_id = EncodeOfferId_tagged 100 TOIDType,
            base_account_id = 2, base_asset_id = 4, base_amount = 20,
            counter_offer_id = EncodeOfferId_tagged 11 CoreOfferIDType,
            counter_account_id = 1, counter_asset_id = 9, counter_amount = 50,
            base_is_seller = False, price_n = 5, price_d = 2 \<rparr>"

text \<open>
  Scenario D of the spec: one trade as the legacy ingestion reads it, and the same trade
  stored in the opposite orientation, its close time in another representation.
\<close>

definition legacyTrade :: Trade where
  "legacyTrade =
     \<lparr> HistoryOperationID = 4294971393, Order = 0,
       LedgerCloseTime = \<lparr> seconds = 1570000000, nanoseconds = 0, location = ''UTC'' \<rparr>,
       OfferID = 11,
       BaseOfferID = 11, BaseAccount = ''GSELLER'', BaseAssetType = ''credit_alphanum4'',
       BaseAssetCode = ''X'', BaseAssetIssuer = ''GISSUER'', BaseAmount = 50,
       CounterOfferID = 12, CounterAccount = ''GBUYER'', CounterAssetType = ''credit_alphanum4'',
       CounterAssetCode = ''Y'', CounterAssetIssuer = ''GISSUER'', CounterAmount = 20,
       BaseIsSeller = True,
       PriceN = \<lparr> Int64 = 2, Valid = True \<rparr>, PriceD = \<lparr> Int64 = 5, Valid = True \<rparr> \<rparr>"

definition mirroredTrade :: Trade where
  "mirroredTrade =
     \<lparr> HistoryOperationID = 4294971393, Order = 0,
       LedgerCloseTime = \<lparr> seconds = 1570000000, nanoseconds = 0, location = ''Local'' \<rparr>,
       OfferID = 11,
       BaseOfferID = 12, BaseAccount = ''GBUYER'', BaseAssetType = ''credit_alphanum4'',
       BaseAssetCode = ''Y'', BaseAssetIssuer = ''GISSUER'', BaseAmount = 20,
       CounterOfferID = 11, CounterAccount = ''GSELLER'', CounterAssetType = ''credit_alphanum4'',
       CounterAssetCode = ''X'', CounterAssetIssuer = ''GISSUER'', CounterAmount = 50,
       BaseIsSeller = False,
       PriceN = \<lparr> Int64 = 5, Valid = True \<rparr>, PriceD = \<lparr> Int64 = 2, Valid = True \<rparr> \<rparr>"

text \<open>A row whose operation id is the composite ordinal of ledger 2 itself.\<close>

definition nextLedgerRow :: joined_row where
  "nextLedgerRow =
     \<lparr> HistoryOperationID = 8589934592, Order = 0,
       LedgerCloseTime = \<lparr> seconds = 1570000005, nanoseconds = 0, location = ''UTC'' \<rparr>,
       OfferID = 11,
       BaseOfferID = 11, BaseAccount = ''GSELLER'', BaseAssetType = ''credit_alphanum4'',
       BaseAssetCode = ''X'', BaseAssetIssuer = ''GISSUER'', BaseAmount = 50,
       CounterOfferID = 12, CounterAccount = ''GBUYER'', CounterAssetType = ''credit_alphanum4'',
       CounterAssetCode = ''Y'', CounterAssetIssuer = ''GISSUER'', CounterAmount = 20,
       BaseIsSeller = True,
       PriceN = \<lparr> Int64 = 2, Valid = True \<rparr>, PriceD = \<lparr> Int64 = 5, Valid = True \<rparr>,
       htrd_base_account_id = 1, htrd_counter_account_id = 2,
       htrd_base_asset_id = 3, htrd_counter_asset_id = 7 \<rparr>"

text \<open>Page queries: a token in wire format, a malformed one, and an unknown direction.\<close>

definition pageResume :: PageQuery where
  "pageResume = \<lparr> Cursor = ''100-1'', Order_pq = ''asc'', Limit_pq = 2 \<rparr>"

definition pageResumeDesc :: PageQuery where
  "pageResumeDesc = \<lparr> Cursor = ''100-1'', Order_pq = ''desc'', Limit_pq = 2 \<rparr>"

definition pageMalformed :: PageQuery where
  "pageMalformed = \<lparr> Cursor = ''abc'', Order_pq = ''asc'', Limit_pq = 2 \<rparr>"

definition pageSideways :: PageQuery where
  "pageSideways = \<lparr> Cursor = ''100-1'', Order_pq = ''sideways'', Limit_pq = 2 \<rparr>"

definition pageSidewaysMalformed :: PageQuery where
  "pageSidewaysMalformed = \<lparr> Cursor = ''abc'', Order_pq = ''sideways'', Limit_pq = 2 \<rparr>"

text \<open>A query whose account filter failed: the address is unknown to the session.\<close>

definition failedAccountQuery :: TradesQ where
  "failedAccountQuery = ForAccount (Trades (session assetIdsA [] [])) ''GNOBODY''"

section \<open>Properties\<close>

subsection \<open>Canonical order\<close>

lemma sless_antisym_cases:
  fixes a b :: int64
  assumes "a \<noteq> b"
  shows "(a <s b \<and> \<not> b <s a) \<or> (b <s a \<and> \<not> a <s b)"
  using assms signed.less_linear signed.less_asym by blast

lemma lt37: "(3::int64) <s 7"
  by (simp add: word_sless_alt)

lemma lt49: "(4::int64) <s 9"
  by (simp add: word_sless_alt)

text \<open>
  C5. For two distinct asset ids, \<open>getCanonicalAssetOrder\<close> returns \<open>(True, idA, idB)\<close>
  when \<open>idA\<close> is the smaller one and \<open>(False, idB, idA)\<close> otherwise; called on the pair
  and on the swapped pair it yields the same base and counter ids and opposite
  order-preserved flags.
\<close>

theorem getCanonicalAssetOrder_distinct:
  assumes "idA \<noteq> idB"
  shows "getCanonicalAssetOrder idA idB =
           (if idA <s idB then (True, idA, idB) else (False, idB, idA))
       \<and> snd (getCanonicalAssetOrder idA idB) = snd (getCanonicalAssetOrder idB idA)
       \<and> fst (getCanonicalAssetOrder idA idB) = (\<not> fst (getCanonicalAssetOrder idB idA))"
  using sless_antisym_cases [OF assms]
  by (auto simp: getCanonicalAssetOrder_def)

theorem getCanonicalAssetOrder_distinct_witness:
  "(3::int64) \<noteq> 7
   \<and> getCanonicalAssetOrder 3 7 = (True, 3, 7)
   \<and> getCanonicalAssetOrder 7 3 = (False, 3, 7)
   \<and> snd (getCanonicalAssetOrder 3 7) = snd (getCanonicalAssetOrder 7 3)
   \<and> fst (getCanonicalAssetOrder 3 7) = (\<not> fst (getCanonicalAssetOrder 7 3))"
proof -
  have ne: "(3::int64) \<noteq> 7" by simp
  have nlt: "\<not> (7::int64) <s 3" by (simp add: word_sless_alt)
  from getCanonicalAssetOrder_distinct [OF ne] getCanonicalAssetOrder_distinct [OF ne [symmetric]]
  show ?thesis using ne lt37 nlt by simp
qed

subsection \<open>Recording a trade\<close>

lemma InsertTrade_scenario_A:
  "InsertTrade EncodeOfferId_tagged Millis_ToTime (session assetIdsA [] []) 100 0 ''GBUYER'' True
       buyOfferXY claimXY \<lparr> N = 2, D = 5 \<rparr> 1000
     = (None, (session assetIdsA [] [])\<lparr> inserted := [rowA] \<rparr>)"
  by (simp add: InsertTrade_def session_def assetIdsA_def assetX_def assetY_def claimXY_def
        buyOfferXY_def getCanonicalAssetOrder_def lt37 Q_Exec_def rowA_def)

lemma InsertTrade_scenario_B:
  "InsertTrade EncodeOfferId_tagged Millis_ToTime (session assetIdsB [] []) 100 0 ''GBUYER'' False
       buyOfferXY claimXY \<lparr> N = 2, D = 5 \<rparr> 1000
     = (None, (session assetIdsB [] [])\<lparr> inserted := [rowB] \<rparr>)"
  by (simp add: InsertTrade_def session_def assetIdsB_def assetX_def assetY_def claimXY_def
        buyOfferXY_def getCanonicalAssetOrder_def word_sless_alt Q_Exec_def rowB_def Invert_def)

text \<open>A call that returns no error has resolved both accounts and both assets.\<close>

lemma InsertTrade_success:
  assumes "InsertTrade E T q opid ord buyer buyOfferExists buyOffer trade sellPrice closedAt
             = (None, q')"
  obtains sellerAccountId buyerAccountId soldAssetId boughtAssetId where
    "GetCreateAccountID q (ClaimOfferAtom.SellerId trade) = Inr sellerAccountId"
    "GetCreateAccountID q buyer = Inr buyerAccountId"
    "GetCreateAssetID q (AssetSold trade) = Inr soldAssetId"
    "GetCreateAssetID q (AssetBought trade) = Inr boughtAssetId"
  using assms
  by (auto simp add: InsertTrade_def split: sum.splits)

text \<open>
  C1. For every trade recorded by \<open>InsertTrade\<close> (the call returns no error; the resolvers
  gave the ids named in the premises): exactly one row is appended to the inserted rows.
  If the id of the sold asset is less than the id of the bought asset, the row has the
  seller on the base side (base account, amount sold, sell offer id), the buyer on the
  counter side, the sell price as given and \<open>base_is_seller = True\<close>. If it is greater,
  the sides are exchanged, numerator and denominator of the price are exchanged, and
  \<open>base_is_seller = False\<close>.
\<close>

theorem InsertTrade_canonical_sides:
  assumes ok: "InsertTrade EncodeOfferId ToTime q opid ord buyer buyOfferExists buyOffer trade
                 sellPrice ledgerClosedAt = (None, q')"
    and seller: "GetCreateAccountID q (ClaimOfferAtom.SellerId trade) = Inr sellerAccountId"
    and buyer: "GetCreateAccountID q buyer = Inr buyerAccountId"
    and sold: "GetCreateAssetID q (AssetSold trade) = Inr soldAssetId"
    and bought: "GetCreateAssetID q (AssetBought trade) = Inr boughtAssetId"
    and sellOffer: "sellOfferId = EncodeOfferId (ClaimOfferAtom.OfferId trade) CoreOfferIDType"
    and buyOffer: "buyOfferId =
                     (if buyOfferExists
                      then EncodeOfferId (OfferEntry.OfferId buyOffer) CoreOfferIDType
                      else EncodeOfferId opid TOIDType)"
  shows "inserted q' = inserted q @ [last (inserted q')]
       \<and> (soldAssetId <s boughtAssetId \<longrightarrow>
            last (inserted q') =
              \<lparr> history_operation_id = opid,
                order = ord,
                ledger_closed_at = ToTime ledgerClosedAt,
                offer_id = ClaimOfferAtom.OfferId trade,
                base_offer_id = sellOfferId,
                base_account_id = sellerAccountId,
                base_asset_id = soldAssetId,
                base_amount = AmountSold trade,
                counter_offer_id = buyOfferId,
                counter_account_id = buyerAccountId,
                counter_asset_id = boughtAssetId,
                counter_amount = AmountBought trade,
                base_is_seller = True,
                price_n = N sellPrice,
                price_d = D sellPrice \<rparr>)
       \<and> (boughtAssetId <s soldAssetId \<longrightarrow>
            last (inserted q') =
              \<lparr> history_operation_id = opid,
                order = ord,
                ledger_closed_at = ToTime ledgerClosedAt,
                offer_id = ClaimOfferAtom.OfferId trade,
                base_offer_id = buyOfferId,
                base_account_id = buyerAccountId,
                base_asset_id = boughtAssetId,
                base_amount = AmountBought trade,
                counter_offer_id = sellOfferId,
                counter_account_id = sellerAccountId,
                counter_asset_id = soldAssetId,
                counter_amount = AmountSold trade,
                base_is_seller = False,
                price_n = D sellPrice,
                price_d = N sellPrice \<rparr>)"
proof -
  have asym: "boughtAssetId <s soldAssetId \<Longrightarrow> \<not> soldAssetId <s boughtAssetId"
    using signed.less_asym by blast
  show ?thesis
    using ok asym
    unfolding InsertTrade_def seller buyer sold bought sellOffer buyOffer
    by (auto simp add: Let_def getCanonicalAssetOrder_def Q_Exec_def Invert_def
          split: option.splits if_splits)
qed

text \<open>Scenarios A and B of the spec.\<close>

theorem InsertTrade_canonical_sides_witness:
  "InsertTrade EncodeOfferId_tagged Millis_ToTime (session assetIdsA [] []) 100 0 ''GBUYER'' True
       buyOfferXY claimXY \<lparr> N = 2, D = 5 \<rparr> 1000
     = (None, (session assetIdsA [] [])\<lparr> inserted := [rowA] \<rparr>)
   \<and> GetCreateAssetID (session assetIdsA [] []) (AssetSold claimXY) = Inr 3
   \<and> GetCreateAssetID (session assetIdsA [] []) (AssetBought claimXY) = Inr 7
   \<and> (3::int64) <s 7
   \<and> last (inserted ((session assetIdsA [] [])\<lparr> inserted := [rowA] \<rparr>)) =
       \<lparr> history_operation_id = 100, order = 0, ledger_closed_at = Millis_ToTime 1000,
         offer_id = 11, base_offer_id = EncodeOfferId_tagged 11 CoreOfferIDType,
         base_account_id = 1, base_asset_id = 3, base_amount = 50,
         counter_offer_id = EncodeOfferId_tagged 12 CoreOfferIDType,
         counter_account_id = 2, counter_asset_id = 7, counter_amount = 20,
         base_is_seller = True, price_n = 2, price_d = 5 \<rparr>
   \<and> InsertTrade EncodeOfferId_tagged Millis_ToTime (session assetIdsB [] []) 100 0 ''GBUYER'' False
       buyOfferXY claimXY \<lparr> N = 2, D = 5 \<rparr> 1000
     = (None, (session assetIdsB [] [])\<lparr> inserted := [rowB] \<rparr>)
   \<and> GetCreateAssetID (session assetIdsB [] []) (AssetSold claimXY) = Inr 9
   \<and> GetCreateAssetID (session assetIdsB [] []) (AssetBought claimXY) = Inr 4
   \<and> (4::int64) <s 9
   \<and> last (inserted ((session assetIdsB [] [])\<lparr> inserted := [rowB] \<rparr>)) =
       \<lparr> history_operation_id = 100, order = 0, ledger_closed_at = Millis_ToTime 1000,
         offer_id = 11, base_offer_id = EncodeOfferId_tagged 100 TOIDType,
         base_account_id = 2, base_asset_id = 4, base_amount = 20,
         counter_offer_id = EncodeOfferId_tagged 11 CoreOfferIDType,
         counter_account_id = 1, counter_asset_id = 9, counter_amount = 50,
         base_is_seller = False, price_n = 5, price_d = 2 \<rparr>"
proof -
  have sellerA: "GetCreateAccountID (session assetIdsA [] []) (ClaimOfferAtom.SellerId claimXY) = Inr 1"
    and buyerA: "GetCreateAccountID (session assetIdsA [] []) ''GBUYER'' = Inr 2"
    and soldA: "GetCreateAssetID (session assetIdsA [] []) (AssetSold claimXY) = Inr 3"
    and boughtA: "GetCreateAssetID (session assetIdsA [] []) (AssetBought claimXY) = Inr 7"
    by (simp_all add: session_def claimXY_def assetIdsA_def assetX_def assetY_def)
  have sellerB: "GetCreateAccountID (session assetIdsB [] []) (ClaimOfferAtom.SellerId claimXY) = Inr 1"
    and buyerB: "GetCreateAccountID (session assetIdsB [] []) ''GBUYER'' = Inr 2"
    and soldB: "GetCreateAssetID (session assetIdsB [] []) (AssetSold claimXY) = Inr 9"
    and boughtB: "GetCreateAssetID (session assetIdsB [] []) (AssetBought claimXY) = Inr 4"
    by (simp_all add: session_def claimXY_def assetIdsB_def assetX_def assetY_def)
  have fields: "ClaimOfferAtom.OfferId claimXY = 11" "OfferEntry.OfferId buyOfferXY = 12"
    "AmountSold claimXY = 50" "AmountBought claimXY = 20"
    by (simp_all add: claimXY_def buyOfferXY_def)
  note A = InsertTrade_canonical_sides
             [OF InsertTrade_scenario_A sellerA buyerA soldA boughtA refl refl]
  note B = InsertTrade_canonical_sides
             [OF InsertTrade_scenario_B sellerB buyerB soldB boughtB refl refl]
  from A B InsertTrade_scenario_A InsertTrade_scenario_B soldA boughtA soldB boughtB lt37 lt49
  show ?thesis
    by (simp add: fields)
qed

subsection \<open>The reverse projection\<close>

lemma selectTradeFields_Trade: "selectTradeFields (r::Trade) = r"
  by (simp add: selectTradeFields_def)

text \<open>
  The swap of \<open>CheckExpTrades\<close> is the reverse projection: it is applied when the two
  flags differ, and then setting the flag to the other row's flag negates it.
\<close>

lemma swapBaseCounter_reverse:
  "BaseIsSeller e \<noteq> BaseIsSeller t \<Longrightarrow> swapBaseCounter e t = selectReverseTradeFields e"
  by (cases e) (auto simp add: swapBaseCounter_def selectReverseTradeFields_def)

text \<open>
  C6. Applying the reverse projection twice to a trade row returns the row; so does the
  swap of \<open>CheckExpTrades\<close>, applied to align a row with another one and then to align
  the result with the row itself.
\<close>

theorem reverse_projection_twice:
  "selectReverseTradeFields (selectReverseTradeFields r) = (r::Trade)
   \<and> swapBaseCounter (swapBaseCounter r t) r = r"
  by (simp add: selectReverseTradeFields_def swapBaseCounter_def)

subsection \<open>Filters\<close>

lemma row_selected_Where:
  "row_selected (sq_Where b e) r \<longleftrightarrow> row_selected b r \<and> eval_where e r"
  by (auto simp add: row_selected_def sq_Where_def)

lemma row_selected_OrderBy [simp]: "row_selected (sq_OrderBy b s) r = row_selected b r"
  by (simp add: row_selected_def sq_OrderBy_def)

lemma row_selected_Limit [simp]: "row_selected (sq_Limit b n) r = row_selected b r"
  by (simp add: row_selected_def sq_Limit_def)

lemma row_selected_Trades: "row_selected (sql (Trades q)) r"
  by (simp add: row_selected_def Trades_def joinTradeAssets_def joinTradeAccounts_def sq_Join_def
        sq_From_def sq_Select_def)

lemma ForLedger_Err [simp]: "Err (ForLedger T tq seq ord) = Err tq"
  by (simp add: ForLedger_def Let_def)

lemma ForLedger_parent [simp]: "parent (ForLedger T tq seq ord) = parent tq"
  by (simp add: ForLedger_def Let_def)

lemma Trades_simps [simp]: "Err (Trades q) = None" "parent (Trades q) = q"
  by (simp_all add: Trades_def)

lemma expTrades_simps [simp]: "Err (expTrades q) = None" "parent (expTrades q) = q"
  by (simp_all add: expTrades_def)

text \<open>
  What \<open>ForLedger\<close> builds: the rows selected are those whose operation id lies between
  the ordinal of the ledger and the ordinal of the next ledger, both bounds included, and
  the ordering clause names operation id and order with the direction given.
\<close>

lemma ForLedger_filter:
  "row_selected (sql (ForLedger T q seq ord)) r \<longleftrightarrow>
     row_selected (sql q) r
     \<and> T \<lparr> LedgerSequence = seq, TransactionOrder = 0, OperationOrder = 0 \<rparr>
         \<le>s HistoryOperationID r
     \<and> HistoryOperationID r
         \<le>s T \<lparr> LedgerSequence = seq + 1, TransactionOrder = 0, OperationOrder = 0 \<rparr>"
  by (auto simp add: ForLedger_def Let_def row_selected_Where sql_compare_def column_value_def
        word_sle_eq)

lemma ForLedger_ordering:
  "OrderBys (sql (ForLedger T q seq ord)) =
     OrderBys (sql q) @ [''htrd.history_operation_id '' @ ord @ '', htrd.order '' @ ord]"
  by (simp add: ForLedger_def Let_def sq_OrderBy_def sq_Where_def)

text \<open>
  C3. The claim has \<open>ForLedger\<close> restrict the rows to the half-open range from the ordinal
  of ledger \<open>seq\<close> up to, and not including, the ordinal of ledger \<open>seq + 1\<close>. The condition
  of the code closes the range with \<^verbatim>\<open><=\<close>: for ledger 1, a row whose operation id is the
  ordinal of ledger 2 is not below that ordinal and is selected all the same.
\<close>

theorem ForLedger_admits_next_ledger_id:
  "toid_ToInt64 \<lparr> LedgerSequence = 1, TransactionOrder = 0, OperationOrder = 0 \<rparr> = 4294967296
   \<and> toid_ToInt64 \<lparr> LedgerSequence = 1 + 1, TransactionOrder = 0, OperationOrder = 0 \<rparr>
       = 8589934592
   \<and> HistoryOperationID nextLedgerRow = 8589934592
   \<and> \<not> HistoryOperationID nextLedgerRow
         <s toid_ToInt64 \<lparr> LedgerSequence = 1 + 1, TransactionOrder = 0, OperationOrder = 0 \<rparr>
   \<and> row_selected (sql (ForLedger toid_ToInt64 (Trades (session assetIdsA [] [])) 1 ''asc''))
        nextLedgerRow"
  by (simp add: ForLedger_filter row_selected_Trades toid_ToInt64_def nextLedgerRow_def
        word_sle_eq)

subsection \<open>Paging\<close>

lemma page_asc_where_lex:
  "eval_where (page_asc_where op idx) r \<longleftrightarrow> lex_less (sint op, sint idx) (row_key r)"
  by (auto simp add: page_asc_where_def lex_less_def row_key_def sql_compare_def column_value_def)

lemma page_desc_where_lex:
  "eval_where (page_desc_where op idx) r \<longleftrightarrow> lex_less (row_key r) (sint op, sint idx)"
  by (auto simp add: page_desc_where_def lex_less_def row_key_def sql_compare_def column_value_def)

lemma Page_Err: "Err q = Some e \<Longrightarrow> Page C q page = q"
  by (simp add: Page_def)

lemma Page_cursor_error:
  "Err q = None \<Longrightarrow> C page DefaultPairSep = Inl err \<Longrightarrow> Page C q page = q\<lparr> Err := Some err \<rparr>"
  by (simp add: Page_def)

lemma Select_Err: "Err tq = Some e \<Longrightarrow> Select tq = (Inl e, tq)"
  by (simp add: Select_def)

lemma decode_pages:
  "decimal_CursorInt64Pair pageResume DefaultPairSep = Inr (100, 1)"
  "decimal_CursorInt64Pair pageResumeDesc DefaultPairSep = Inr (100, 1)"
  "decimal_CursorInt64Pair pageMalformed DefaultPairSep = Inl ErrInvalidCursor"
  "decimal_CursorInt64Pair pageSideways DefaultPairSep = Inr (100, 1)"
  "decimal_CursorInt64Pair pageSidewaysMalformed DefaultPairSep = Inl ErrInvalidCursor"
  by (simp_all add: decimal_CursorInt64Pair_def DefaultPairSep_def ParseInt64_def digit_value_def
        pageResume_def pageResumeDesc_def pageMalformed_def pageSideways_def
        pageSidewaysMalformed_def)

lemma failedAccountQuery_Err:
  "Err failedAccountQuery = Some (Error ''sql: no rows in result set'')"
  by (simp add: failedAccountQuery_def ForAccount_def session_def Trades_def)

text \<open>
  C4. The condition \<open>Page\<close> adds for a cursor \<open>(op, idx)\<close> (\<open>idx\<close> after the clamp to 32
  bits) is a strict lexicographic comparison on operation id and order: for \<^verbatim>\<open>asc\<close> a row
  satisfies it if and only if its pair is greater than \<open>(op, idx)\<close>, for \<^verbatim>\<open>desc\<close> if and
  only if its pair is less.
\<close>

theorem Page_cursor_predicate_lexicographic:
  assumes "Err q = None" and "C page DefaultPairSep = Inr (op, idx0)"
    and "idx = (if MaxInt32 <s idx0 then MaxInt32 else idx0)"
  shows "(Order_pq page = ''asc'' \<longrightarrow>
            WhereParts (sql (Page C q page)) = WhereParts (sql q) @ [page_asc_where op idx]
          \<and> (eval_where (page_asc_where op idx) r \<longleftrightarrow> lex_less (sint op, sint idx) (row_key r))
          \<and> (row_selected (sql (Page C q page)) r \<longleftrightarrow>
               row_selected (sql q) r \<and> lex_less (sint op, sint idx) (row_key r)))
       \<and> (Order_pq page = ''desc'' \<longrightarrow>
            WhereParts (sql (Page C q page)) = WhereParts (sql q) @ [page_desc_where op idx]
          \<and> (eval_where (page_desc_where op idx) r \<longleftrightarrow> lex_less (row_key r) (sint op, sint idx))
          \<and> (row_selected (sql (Page C q page)) r \<longleftrightarrow>
               row_selected (sql q) r \<and> lex_less (row_key r) (sint op, sint idx)))"
proof -
  have asc: "eval_where (page_asc_where op idx) r \<longleftrightarrow> lex_less (sint op, sint idx) (row_key r)"
    by (rule page_asc_where_lex)
  have desc: "eval_where (page_desc_where op idx) r \<longleftrightarrow> lex_less (row_key r) (sint op, sint idx)"
    by (rule page_desc_where_lex)
  have P: "Page C q page =
      (let q1 = (if Order_pq page = ''asc'' then
                   q\<lparr> sql := sq_OrderBy (sq_Where (sql q) (page_asc_where op idx))
                                ''htrd.history_operation_id asc, htrd.order asc'' \<rparr>
                 else if Order_pq page = ''desc'' then
                   q\<lparr> sql := sq_OrderBy (sq_Where (sql q) (page_desc_where op idx))
                                ''htrd.history_operation_id desc, htrd.order desc'' \<rparr>
                 else q)
       in q1\<lparr> sql := sq_Limit (sql q1) (Limit_pq page) \<rparr>)"
    using assms(1,2) unfolding assms(3) by (simp add: Page_def Let_def)
  show ?thesis
    unfolding P Let_def
    using asc desc
    by (auto simp add: row_selected_def sq_Where_def sq_OrderBy_def sq_Limit_def)
qed

theorem Page_cursor_predicate_lexicographic_witness:
  "Err (Trades (session assetIdsA [] [])) = None
   \<and> decimal_CursorInt64Pair pageResume DefaultPairSep = Inr (100, 1)
   \<and> (1::int64) = (if MaxInt32 <s 1 then MaxInt32 else 1)
   \<and> Order_pq pageResume = ''asc''
   \<and> WhereParts (sql (Page decimal_CursorInt64Pair (Trades (session assetIdsA [] [])) pageResume))
        = [page_asc_where 100 1]
   \<and> lex_less (100, 1) (row_key nextLedgerRow)
   \<and> row_selected (sql (Page decimal_CursorInt64Pair (Trades (session assetIdsA [] [])) pageResume))
        nextLedgerRow
   \<and> decimal_CursorInt64Pair pageResumeDesc DefaultPairSep = Inr (100, 1)
   \<and> Order_pq pageResumeDesc = ''desc''
   \<and> WhereParts (sql (Page decimal_CursorInt64Pair (Trades (session assetIdsA [] [])) pageResumeDesc))
        = [page_desc_where 100 1]
   \<and> \<not> lex_less (row_key nextLedgerRow) (100, 1)
   \<and> \<not> row_selected
          (sql (Page decimal_CursorInt64Pair (Trades (session assetIdsA [] [])) pageResumeDesc))
          nextLedgerRow"
proof -
  have e: "Err (Trades (session assetIdsA [] [])) = None" by simp
  have c: "(1::int64) = (if MaxInt32 <s 1 then MaxInt32 else 1)"
    by (simp add: MaxInt32_def word_sless_alt)
  have o: "Order_pq pageResume = ''asc''" "Order_pq pageResumeDesc = ''desc''"
    by (simp_all add: pageResume_def pageResumeDesc_def)
  have w: "WhereParts (sql (Trades (session assetIdsA [] []))) = []"
    by (simp add: Trades_def joinTradeAssets_def joinTradeAccounts_def sq_Join_def sq_From_def
          sq_Select_def)
  have l: "lex_less (100, 1) (row_key nextLedgerRow)"
    "\<not> lex_less (row_key nextLedgerRow) (100, 1)"
    by (simp_all add: lex_less_def row_key_def nextLedgerRow_def)
  have s: "row_selected (sql (Trades (session assetIdsA [] []))) nextLedgerRow"
    by (rule row_selected_Trades)
  note P = Page_cursor_predicate_lexicographic
             [where C = decimal_CursorInt64Pair and q = "Trades (session assetIdsA [] [])"
                and page = pageResume and op = 100 and ?idx0.0 = 1 and idx = 1
                and r = nextLedgerRow]
  note R = Page_cursor_predicate_lexicographic
             [where C = decimal_CursorInt64Pair and q = "Trades (session assetIdsA [] [])"
                and page = pageResumeDesc and op = 100 and ?idx0.0 = 1 and idx = 1
                and r = nextLedgerRow]
  from P [OF e decode_pages(1) c] R [OF e decode_pages(2) c] e decode_pages(1,2) c o w l s
  show ?thesis by simp
qed

text \<open>
  C9, as the code has it. For a page query whose cursor does not parse: on a builder that
  carries no earlier error, \<open>Page\<close> records the parse error and \<open>Select\<close> returns it; on a
  builder that already carries an error, \<open>Page\<close> leaves that error in place and \<open>Select\<close>
  returns it. In both cases the built query is unchanged and \<open>Select\<close> executes no query
  against the store.
\<close>

theorem Page_malformed_cursor:
  assumes "C page DefaultPairSep = Inl err"
  shows "(Err q = None \<longrightarrow>
            Err (Page C q page) = Some err \<and> fst (Select (Page C q page)) = Inl err)
       \<and> (\<forall>e. Err q = Some e \<longrightarrow>
            Err (Page C q page) = Some e \<and> fst (Select (Page C q page)) = Inl e)
       \<and> sql (Page C q page) = sql q
       \<and> executed (parent (snd (Select (Page C q page)))) = executed (parent q)"
proof (cases "Err q")
  case None
  then have "Page C q page = q\<lparr> Err := Some err \<rparr>"
    using assms by (rule Page_cursor_error)
  then show ?thesis using None by (simp add: Select_Err)
next
  case (Some e)
  then have "Page C q page = q" by (rule Page_Err)
  then show ?thesis using Some by (simp add: Select_Err)
qed

theorem Page_malformed_cursor_witness:
  "decimal_CursorInt64Pair pageMalformed DefaultPairSep = Inl ErrInvalidCursor
   \<and> Err (Trades (session assetIdsA [] [])) = None
   \<and> fst (Select (Page decimal_CursorInt64Pair (Trades (session assetIdsA [] [])) pageMalformed))
        = Inl ErrInvalidCursor
   \<and> executed (parent (snd (Select
         (Page decimal_CursorInt64Pair (Trades (session assetIdsA [] [])) pageMalformed)))) = []
   \<and> Err failedAccountQuery = Some (Error ''sql: no rows in result set'')
   \<and> fst (Select (Page decimal_CursorInt64Pair failedAccountQuery pageMalformed))
        = Inl (Error ''sql: no rows in result set'')"
proof -
  have e: "Err (Trades (session assetIdsA [] [])) = None" by simp
  have x: "executed (parent (Trades (session assetIdsA [] []))) = []"
    by (simp add: session_def)
  note A = Page_malformed_cursor [where C = decimal_CursorInt64Pair and page = pageMalformed
             and err = ErrInvalidCursor and q = "Trades (session assetIdsA [] [])",
             OF decode_pages(3)]
  note B = Page_malformed_cursor [where C = decimal_CursorInt64Pair and page = pageMalformed
             and err = ErrInvalidCursor and q = failedAccountQuery, OF decode_pages(3)]
  from A B e x failedAccountQuery_Err decode_pages(3) show ?thesis by simp
qed

text \<open>
  C9 as stated fails on a builder whose account filter has failed: the cursor of the page
  query does not parse, yet the error \<open>Page\<close> leaves recorded and \<open>Select\<close> returns is the
  error of the account lookup, not the parse error.
\<close>

theorem Page_malformed_cursor_counterexample:
  "decimal_CursorInt64Pair pageMalformed DefaultPairSep = Inl ErrInvalidCursor
   \<and> Err (Page decimal_CursorInt64Pair failedAccountQuery pageMalformed) \<noteq> Some ErrInvalidCursor
   \<and> fst (Select (Page decimal_CursorInt64Pair failedAccountQuery pageMalformed))
        \<noteq> Inl ErrInvalidCursor"
  by (simp add: decode_pages(3) Page_Err [OF failedAccountQuery_Err]
        Select_Err [OF failedAccountQuery_Err] failedAccountQuery_Err ErrInvalidCursor_def)

text \<open>
  C10, as the code has it. For a page query whose direction is neither \<^verbatim>\<open>asc\<close> nor
  \<^verbatim>\<open>desc\<close>, \<open>Page\<close> adds no cursor condition and no ordering clause; if the builder
  carries no earlier error and the cursor parses, \<open>Page\<close> reports no error and changes
  nothing but the row limit of the built query.
\<close>

theorem Page_unknown_order:
  assumes "Order_pq page \<noteq> ''asc''" and "Order_pq page \<noteq> ''desc''"
  shows "WhereParts (sql (Page C q page)) = WhereParts (sql q)
       \<and> OrderBys (sql (Page C q page)) = OrderBys (sql q)
       \<and> (Err q = None \<longrightarrow> (\<forall>op idx. C page DefaultPairSep = Inr (op, idx) \<longrightarrow>
            Page C q page = q\<lparr> sql := (sql q)\<lparr> Limit := Some (Limit_pq page) \<rparr> \<rparr>))"
  using assms
  by (auto simp add: Page_def Let_def sq_Limit_def split: sum.splits)

theorem Page_unknown_order_witness:
  "Order_pq pageSideways \<noteq> ''asc'' \<and> Order_pq pageSideways \<noteq> ''desc''
   \<and> Err (Trades (session assetIdsA [] [])) = None
   \<and> decimal_CursorInt64Pair pageSideways DefaultPairSep = Inr (100, 1)
   \<and> Page decimal_CursorInt64Pair (Trades (session assetIdsA [] [])) pageSideways =
       (Trades (session assetIdsA [] []))
         \<lparr> sql := (sql (Trades (session assetIdsA [] [])))\<lparr> Limit := Some 2 \<rparr> \<rparr>"
proof -
  have o: "Order_pq pageSideways \<noteq> ''asc''" "Order_pq pageSideways \<noteq> ''desc''"
    and l: "Limit_pq pageSideways = 2"
    by (simp_all add: pageSideways_def)
  have e: "Err (Trades (session assetIdsA [] [])) = None" by simp
  note A = Page_unknown_order [where C = decimal_CursorInt64Pair and page = pageSideways
             and q = "Trades (session assetIdsA [] [])", OF o]
  from A o e l decode_pages(4) show ?thesis by simp
qed

text \<open>
  C10 as stated fails on a page query whose direction is unknown and whose cursor does
  not parse: \<open>Page\<close> reports the parse error and applies no limit.
\<close>

theorem Page_unknown_order_counterexample:
  "Order_pq pageSidewaysMalformed \<noteq> ''asc'' \<and> Order_pq pageSidewaysMalformed \<noteq> ''desc''
   \<and> Err (Page decimal_CursorInt64Pair (Trades (session assetIdsA [] [])) pageSidewaysMalformed)
        = Some ErrInvalidCursor
   \<and> Limit (sql (Page decimal_CursorInt64Pair (Trades (session assetIdsA [] []))
                    pageSidewaysMalformed))
        = None"
proof -
  have "Page decimal_CursorInt64Pair (Trades (session assetIdsA [] [])) pageSidewaysMalformed
          = (Trades (session assetIdsA [] []))\<lparr> Err := Some ErrInvalidCursor \<rparr>"
    using decode_pages(5) by (simp add: Page_cursor_error)
  then show ?thesis
    by (simp add: pageSidewaysMalformed_def Trades_def joinTradeAssets_def joinTradeAccounts_def
          sq_Join_def sq_From_def sq_Select_def)
qed

subsection \<open>Checking the two ingestions\<close>

lemma Select_no_error:
  "Err tq = None \<Longrightarrow>
   Select tq =
     (case select_answer (parent tq) (sql tq) of
        Inl err \<Rightarrow>
          (Inl err,
           tq\<lparr> Err := Some err,
               parent := (parent tq)\<lparr> executed := executed (parent tq) @ [sql tq] \<rparr> \<rparr>)
      | Inr rows \<Rightarrow>
          (Inr rows,
           tq\<lparr> Err := None,
               parent := (parent tq)\<lparr> executed := executed (parent tq) @ [sql tq] \<rparr> \<rparr>))"
  by (simp add: Select_def Q_Select_def split: sum.splits)

lemma expTrades_sql_executed:
  "sql (ForLedger T (expTrades (q\<lparr> executed := l \<rparr>)) seq ord)
     = sql (ForLedger T (expTrades q) seq ord)"
  by (simp add: ForLedger_def Let_def expTrades_def)

text \<open>The result of \<open>CheckExpTrades\<close> once both sequences are fetched.\<close>

lemma CheckExpTrades_fetched:
  assumes "fetched_trades T q seq = Inr trades" and "fetched_expTrades T q seq = Inr exps"
  shows "fst (CheckExpTrades T q seq) =
           (if length trades = 0 \<or> length exps = 0 then Some (True, None)
            else if length trades \<noteq> length exps then Some (False, None)
            else map_option (\<lambda>b. (b, None)) (compareTrades trades exps))"
  using assms
  by (simp add: CheckExpTrades_def fetched_trades_def fetched_expTrades_def Select_no_error
        expTrades_sql_executed)

text \<open>One iteration of the loop accepts a pair of rows exactly when the rows agree.\<close>

lemma tradeMatches_rows_agree: "tradeMatches trade expTrade = rows_agree trade expTrade"
  apply (cases trade, cases expTrade)
  apply (simp add: tradeMatches_def rows_agree_def same_trade_def mirrored_trade_def
      swapBaseCounter_def Let_def)
  apply auto
  done

text \<open>On sequences of equal length the loop never reads out of range.\<close>

lemma compareTrades_equal_length:
  "length trades = length exps \<Longrightarrow>
   compareTrades trades exps = Some (list_all2 tradeMatches trades exps)"
proof (induction trades exps rule: compareTrades.induct)
  case (1 exps)
  then show ?case by simp
next
  case (2 t ts)
  then show ?case by simp
next
  case (3 t ts e es)
  then show ?case by simp
qed

lemma fetched_session:
  "fetched_trades T (session a l e) seq = Inr l"
  "fetched_expTrades T (session a l e) seq = Inr e"
  by (simp_all add: fetched_trades_def fetched_expTrades_def session_def ForLedger_def Let_def
        Trades_def expTrades_def joinTradeAssets_def joinTradeAccounts_def sq_Join_def sq_From_def
        sq_Select_def sq_Where_def sq_OrderBy_def)

lemma legacy_mirrored_agree: "rows_agree legacyTrade mirroredTrade"
  by (simp add: rows_agree_def mirrored_trade_def legacyTrade_def mirroredTrade_def Unix_def)

lemma legacy_altered_disagree:
  "\<not> rows_agree legacyTrade (mirroredTrade\<lparr> CounterAmount := 51 \<rparr>)"
  by (simp add: rows_agree_def mirrored_trade_def same_trade_def legacyTrade_def
        mirroredTrade_def Unix_def)

text \<open>
  C2. For two fetched sequences of equal length: if all corresponding rows have close
  times equal to the second and are field-for-field equal or differ only by the opposite
  canonical orientation, \<open>CheckExpTrades\<close> returns \<open>(True, nil)\<close>; if some pair of
  corresponding rows disagrees beyond that, it returns \<open>(False, nil)\<close>.
\<close>

theorem CheckExpTrades_equal_length:
  assumes "fetched_trades T q seq = Inr trades" and "fetched_expTrades T q seq = Inr exps"
    and "length trades = length exps"
  shows "((\<forall>i < length trades. rows_agree (trades ! i) (exps ! i)) \<longrightarrow>
            fst (CheckExpTrades T q seq) = Some (True, None))
       \<and> ((\<exists>i < length trades. \<not> rows_agree (trades ! i) (exps ! i)) \<longrightarrow>
            fst (CheckExpTrades T q seq) = Some (False, None))"
proof -
  have cmp: "compareTrades trades exps = Some (list_all2 rows_agree trades exps)"
    using compareTrades_equal_length [OF assms(3)] tradeMatches_rows_agree
    by (simp add: list_all2_conv_all_nth)
  have all: "list_all2 rows_agree trades exps
               \<longleftrightarrow> (\<forall>i < length trades. rows_agree (trades ! i) (exps ! i))"
    using assms(3) by (simp add: list_all2_conv_all_nth)
  have res: "fst (CheckExpTrades T q seq) =
               (if length trades = 0 \<or> length exps = 0 then Some (True, None)
                else Some (list_all2 rows_agree trades exps, None))"
    using CheckExpTrades_fetched [OF assms(1,2)] assms(3) cmp by simp
  show ?thesis
  proof (cases "trades = []")
    case True
    then show ?thesis using res by simp
  next
    case False
    then have "exps \<noteq> []" using assms(3) by auto
    with False res all show ?thesis by auto
  qed
qed

text \<open>Scenario D of the spec, and the same pair with one amount altered.\<close>

theorem CheckExpTrades_equal_length_witness:
  "fetched_trades toid_ToInt64 (session assetIdsA [legacyTrade] [mirroredTrade]) 1
     = Inr [legacyTrade]
   \<and> fetched_expTrades toid_ToInt64 (session assetIdsA [legacyTrade] [mirroredTrade]) 1
     = Inr [mirroredTrade]
   \<and> length [legacyTrade] = length [mirroredTrade]
   \<and> rows_agree legacyTrade mirroredTrade
   \<and> fst (CheckExpTrades toid_ToInt64 (session assetIdsA [legacyTrade] [mirroredTrade]) 1)
     = Some (True, None)
   \<and> \<not> rows_agree legacyTrade (mirroredTrade\<lparr> CounterAmount := 51 \<rparr>)
   \<and> fst (CheckExpTrades toid_ToInt64
            (session assetIdsA [legacyTrade] [mirroredTrade\<lparr> CounterAmount := 51 \<rparr>]) 1)
     = Some (False, None)"
proof -
  have a: "\<forall>i < length [legacyTrade]. rows_agree ([legacyTrade] ! i) ([mirroredTrade] ! i)"
    using legacy_mirrored_agree by simp
  have b: "\<exists>i < length [legacyTrade].
             \<not> rows_agree ([legacyTrade] ! i) ([mirroredTrade\<lparr> CounterAmount := 51 \<rparr>] ! i)"
    using legacy_altered_disagree by simp
  have len: "length [legacyTrade] = length [mirroredTrade]"
    "length [legacyTrade] = length [mirroredTrade\<lparr> CounterAmount := 51 \<rparr>]"
    by simp_all
  from CheckExpTrades_equal_length [OF fetched_session len(1)] a
    CheckExpTrades_equal_length [OF fetched_session len(2)] b
  have "fst (CheckExpTrades toid_ToInt64 (session assetIdsA [legacyTrade] [mirroredTrade]) 1)
          = Some (True, None)"
    and "fst (CheckExpTrades toid_ToInt64
            (session assetIdsA [legacyTrade] [mirroredTrade\<lparr> CounterAmount := 51 \<rparr>]) 1)
          = Some (False, None)"
    by blast+
  then show ?thesis
    using fetched_session legacy_mirrored_agree legacy_altered_disagree by simp
qed

text \<open>
  C7. If either of the two fetched sequences is empty, \<open>CheckExpTrades\<close> returns
  \<open>(True, nil)\<close>, also when the other sequence is not empty.
\<close>

theorem CheckExpTrades_either_empty:
  assumes "fetched_trades T q seq = Inr trades" and "fetched_expTrades T q seq = Inr exps"
    and "trades = [] \<or> exps = []"
  shows "fst (CheckExpTrades T q seq) = Some (True, None)"
  using CheckExpTrades_fetched [OF assms(1,2)] assms(3) by auto

theorem CheckExpTrades_either_empty_witness:
  "fetched_trades toid_ToInt64 (session assetIdsA [] [mirroredTrade]) 1 = Inr []
   \<and> fetched_expTrades toid_ToInt64 (session assetIdsA [] [mirroredTrade]) 1 = Inr [mirroredTrade]
   \<and> fst (CheckExpTrades toid_ToInt64 (session assetIdsA [] [mirroredTrade]) 1) = Some (True, None)
   \<and> fetched_trades toid_ToInt64 (session assetIdsA [legacyTrade] []) 1 = Inr [legacyTrade]
   \<and> fetched_expTrades toid_ToInt64 (session assetIdsA [legacyTrade] []) 1 = Inr []
   \<and> fst (CheckExpTrades toid_ToInt64 (session assetIdsA [legacyTrade] []) 1) = Some (True, None)
   \<and> fst (CheckExpTrades toid_ToInt64 (session assetIdsA [] []) 1) = Some (True, None)"
proof -
  have e1: "([]::Trade list) = [] \<or> [mirroredTrade] = []" by simp
  have e2: "[legacyTrade] = [] \<or> ([]::Trade list) = []" by simp
  have e3: "([]::Trade list) = [] \<or> ([]::Trade list) = []" by simp
  from CheckExpTrades_either_empty [OF fetched_session e1]
    CheckExpTrades_either_empty [OF fetched_session e2]
    CheckExpTrades_either_empty [OF fetched_session e3]
  show ?thesis using fetched_session by simp
qed

text \<open>
  C8. If both fetched sequences are non-empty and their lengths differ, \<open>CheckExpTrades\<close>
  returns \<open>(False, nil)\<close>, whatever the fields of the rows are.
\<close>

theorem CheckExpTrades_length_mismatch:
  assumes "fetched_trades T q seq = Inr trades" and "fetched_expTrades T q seq = Inr exps"
    and "trades \<noteq> []" and "exps \<noteq> []" and "length trades \<noteq> length exps"
  shows "fst (CheckExpTrades T q seq) = Some (False, None)"
  using CheckExpTrades_fetched [OF assms(1,2)] assms(3,4,5) by auto

text \<open>Scenario E of the spec: five trades against four.\<close>

theorem CheckExpTrades_length_mismatch_witness:
  "replicate 5 legacyTrade \<noteq> [] \<and> replicate 4 legacyTrade \<noteq> []
   \<and> length (replicate 5 legacyTrade) \<noteq> length (replicate 4 legacyTrade)
   \<and> fetched_trades toid_ToInt64
        (session assetIdsA (replicate 5 legacyTrade) (replicate 4 legacyTrade)) 1
       = Inr (replicate 5 legacyTrade)
   \<and> fetched_expTrades toid_ToInt64
        (session assetIdsA (replicate 5 legacyTrade) (replicate 4 legacyTrade)) 1
       = Inr (replicate 4 legacyTrade)
   \<and> fst (CheckExpTrades toid_ToInt64
            (session assetIdsA (replicate 5 legacyTrade) (replicate 4 legacyTrade)) 1)
       = Some (False, None)"
proof -
  have n1: "replicate 5 legacyTrade \<noteq> []" and n2: "replicate 4 legacyTrade \<noteq> []"
    and n3: "length (replicate 5 legacyTrade) \<noteq> length (replicate 4 legacyTrade)"
    by simp_all
  from CheckExpTrades_length_mismatch [OF fetched_session n1 n2 n3]
  show ?thesis using fetched_session n1 n2 n3 by simp
qed

end
